theory Spec2Isabelle
  imports Main "HOL-Library.Word"
begin

section \<open>Data model\<close>

text \<open>
  Go's \<open>uint64\<close> is a 64-bit word: \<open>+\<close> and \<open>-\<close> wrap modulo \<open>2 ^ 64\<close>, \<open>div\<close>
  truncates, \<open><\<close> compares the unsigned values. \<open>common.Hash\<close> is 32 bytes and
  \<open>types.Bloom\<close> is 256 bytes.
\<close>

type_synonym uint64 = "64 word"
type_synonym hash = "256 word"
type_synonym bloom = "2048 word"

text \<open>
  The fields of \<open>types.Header\<close> that the validator and the gas-limit calculator read.
  \<open>Number\<close> is a \<open>*big.Int\<close> in the source.
\<close>

record Header =
  ParentHash :: hash
  UncleHash :: hash
  Root :: hash
  TxHash :: hash
  ReceiptHash :: hash
  Bloom :: bloom
  Number :: nat
  GasLimit :: uint64
  GasUsed :: uint64

text \<open>
  \<open>types.Block\<close>: a header, the ordered transactions and the ordered uncle headers.
  The transaction type is left open.
\<close>

record 'tx Block =
  header :: Header
  transactions :: "'tx list"
  uncles :: "Header list"

definition Block_GasUsed :: "'tx Block \<Rightarrow> uint64" where
  "Block_GasUsed b = GasUsed (header b)"

definition Block_GasLimit :: "'tx Block \<Rightarrow> uint64" where
  "Block_GasLimit b = GasLimit (header b)"

definition Block_ParentHash :: "'tx Block \<Rightarrow> hash" where
  "Block_ParentHash b = ParentHash (header b)"

text \<open>\<open>NumberU64\<close> reads the low 64 bits of the header's number.\<close>

definition NumberU64 :: "'tx Block \<Rightarrow> uint64" where
  "NumberU64 b = word_of_nat (Number (header b))"

section \<open>The gas-limit calculator\<close>

text \<open>
  \<open>params.GasLimitBoundDivisor\<close> and \<open>params.MinGasLimit\<close> are compile-time
  constants of the \<open>params\<close> package; the calculator takes them as a parameter.
  The divisor is a nonzero constant (a zero constant divisor does not compile in Go).
\<close>

record Params =
  GasLimitBoundDivisor :: uint64
  MinGasLimit :: uint64

text \<open>\<open>contrib := (parent.GasUsed() + parent.GasUsed()/2) / params.GasLimitBoundDivisor\<close>\<close>

definition CalcGasLimit_contrib :: "Params \<Rightarrow> 'tx Block \<Rightarrow> uint64" where
  "CalcGasLimit_contrib p parent =
     (Block_GasUsed parent + Block_GasUsed parent div 2) div GasLimitBoundDivisor p"

text \<open>\<open>decay := parent.GasLimit()/params.GasLimitBoundDivisor - 1\<close>\<close>

definition CalcGasLimit_decay :: "Params \<Rightarrow> 'tx Block \<Rightarrow> uint64" where
  "CalcGasLimit_decay p parent = Block_GasLimit parent div GasLimitBoundDivisor p - 1"

text \<open>\<open>limit := parent.GasLimit() - decay + contrib\<close>, before any adjustment.\<close>

definition CalcGasLimit_limit :: "Params \<Rightarrow> 'tx Block \<Rightarrow> uint64" where
  "CalcGasLimit_limit p parent =
     Block_GasLimit parent - CalcGasLimit_decay p parent + CalcGasLimit_contrib p parent"

text \<open>
  \<open>CalcGasLimit\<close>, statement by statement; each rebinding of \<open>limit\<close> is one
  assignment of the source.
\<close>

definition CalcGasLimit :: "Params \<Rightarrow> 'tx Block \<Rightarrow> uint64 \<Rightarrow> uint64 \<Rightarrow> uint64" where
  "CalcGasLimit p parent gasFloor gasCeil =
     (let decay = CalcGasLimit_decay p parent;
          limit = CalcGasLimit_limit p parent;
          limit = (if limit < MinGasLimit p then MinGasLimit p else limit)
      in if limit < gasFloor then
           (let limit = Block_GasLimit parent + decay
            in if limit > gasFloor then gasFloor else limit)
         else if limit > gasCeil then
           (let limit = Block_GasLimit parent - decay
            in if limit < gasCeil then gasCeil else limit)
         else limit)"

text \<open>
  The six-step algorithm as the specification words it, on the same 64-bit unsigned
  arithmetic: the limit is floored at the minimum; below the floor the result is
  \<open>parentGasLimit + decay\<close> capped at the floor; above the ceiling it is
  \<open>parentGasLimit - decay\<close> capped at the ceiling.
\<close>

definition CalcGasLimit_spec ::
  "Params \<Rightarrow> uint64 \<Rightarrow> uint64 \<Rightarrow> uint64 \<Rightarrow> uint64 \<Rightarrow> uint64" where
  "CalcGasLimit_spec p parentGasUsed parentGasLimit floor ceiling =
     (let contribution = (parentGasUsed + parentGasUsed div 2) div GasLimitBoundDivisor p;
          decay = parentGasLimit div GasLimitBoundDivisor p - 1;
          limit = max (parentGasLimit - decay + contribution) (MinGasLimit p)
      in if limit < floor then min (parentGasLimit + decay) floor
         else if limit > ceiling then min (parentGasLimit - decay) ceiling
         else limit)"

text \<open>
  The same algorithm with step 5 as the code has it: above the ceiling the result is
  \<open>parentGasLimit - decay\<close>, raised to the ceiling when it falls below it.
\<close>

definition CalcGasLimit_steps ::
  "Params \<Rightarrow> uint64 \<Rightarrow> uint64 \<Rightarrow> uint64 \<Rightarrow> uint64 \<Rightarrow> uint64" where
  "CalcGasLimit_steps p parentGasUsed parentGasLimit floor ceiling =
     (let contribution = (parentGasUsed + parentGasUsed div 2) div GasLimitBoundDivisor p;
          decay = parentGasLimit div GasLimitBoundDivisor p - 1;
          limit = max (parentGasLimit - decay + contribution) (MinGasLimit p)
      in if limit < floor then min (parentGasLimit + decay) floor
         else if limit > ceiling then max (parentGasLimit - decay) ceiling
         else limit)"

text \<open>A parent block with the given gas figures and nothing else of interest.\<close>

definition gas_parent :: "uint64 \<Rightarrow> uint64 \<Rightarrow> unit Block" where
  "gas_parent used lim =
     \<lparr>header = \<lparr>ParentHash = 0, UncleHash = 0, Root = 0, TxHash = 0, ReceiptHash = 0,
                 Bloom = 0, Number = 1, GasLimit = lim, GasUsed = used\<rparr>,
      transactions = [], uncles = []\<rparr>"

text \<open>The constants of the specification's worked example, with upstream's minimum.\<close>

definition params_1024 :: Params where
  "params_1024 = \<lparr>GasLimitBoundDivisor = 1024, MinGasLimit = 5000\<rparr>"


section \<open>The block validator\<close>

text \<open>
  Errors of package \<open>core\<close> and \<open>consensus\<close> that the validator returns. The
  \<open>fmt.Errorf\<close> errors carry the two values they print; \<open>EngineError\<close> stands for
  any other error value, such as the ones a consensus engine makes up.
\<close>

datatype error =
    ErrKnownBlock
  | ErrUnknownAncestor
  | ErrPrunedAncestor
  | UncleRootMismatch hash hash
  | TxRootMismatch hash hash
  | InvalidGasUsed uint64 uint64
  | InvalidBloom bloom bloom
  | InvalidReceiptRoot hash hash
  | InvalidMerkleRoot hash hash
  | EngineError string

text \<open>
  The collaborators are objects with methods; each is a record of the methods the
  validator calls. The validator only reads the chain, and the chain is the same at
  every query of one call. \<open>StateDB.IntermediateRoot\<close> also finalises the state it
  is called on; the validator only uses the root it returns.
\<close>

record BlockChain =
  HasBlockAndState :: "hash \<Rightarrow> uint64 \<Rightarrow> bool"
  HasBlock :: "hash \<Rightarrow> uint64 \<Rightarrow> bool"

record 'tx Engine =
  VerifyUncles :: "BlockChain \<Rightarrow> 'tx Block \<Rightarrow> error option"

record ChainConfig =
  IsEIP158 :: "nat \<Rightarrow> bool"

record StateDB =
  IntermediateRoot :: "bool \<Rightarrow> hash"

record 'tx BlockValidator =
  config :: ChainConfig
  bc :: BlockChain
  engine :: "'tx Engine"

text \<open>
  The functions of packages \<open>types\<close> and \<open>trie\<close> that the validator calls:
  the header hash behind \<open>block.Hash()\<close>, the uncle hash, \<open>DeriveSha\<close> over a
  stack trie for transactions and for receipts, the bloom of the receipts, and the
  JSON marshalling and hash string of a transaction.
\<close>

record ('tx, 'rc) Types =
  HeaderHash :: "Header \<Rightarrow> hash"
  CalcUncleHash :: "Header list \<Rightarrow> hash"
  DeriveSha_txs :: "'tx list \<Rightarrow> hash"
  DeriveSha_receipts :: "'rc list \<Rightarrow> hash"
  CreateBloom :: "'rc list \<Rightarrow> bloom"
  MarshalJSON :: "'tx \<Rightarrow> string option"
  TxHashString :: "'tx \<Rightarrow> string"

definition Block_Hash :: "('tx, 'rc) Types \<Rightarrow> 'tx Block \<Rightarrow> hash" where
  "Block_Hash T b = HeaderHash T (header b)"

subsection \<open>Concurrent checks with first-failure reporting\<close>

text \<open>
  Each function of \<open>validateFuns\<close> runs in a goroutine of its own and sends its result
  to the buffered channel \<open>validateRes\<close>. The functions only read, so the model keeps
  their results in a list; what the scheduler decides is the order in which the results
  arrive. \<open>receive_results\<close> is the receive loop: it returns the first non-nil result
  and nil when every result was nil.
\<close>

fun receive_results :: "error option list \<Rightarrow> error option" where
  "receive_results [] = None"
| "receive_results (r # rs) = (case r of Some e \<Rightarrow> Some e | None \<Rightarrow> receive_results rs)"

definition run_validateFuns :: "nat list \<Rightarrow> error option list \<Rightarrow> error option" where
  "run_validateFuns arrival validateFuns =
     receive_results (map (\<lambda>i. validateFuns ! i) arrival)"

text \<open>
  An arrival order of the three goroutines: each of the tasks 0, 1 and 2 sends exactly
  one result.
\<close>

definition arrival_order :: "nat list \<Rightarrow> bool" where
  "arrival_order arrival \<longleftrightarrow> distinct arrival \<and> set arrival = {0, 1, 2}"

subsection \<open>ValidateBody\<close>

text \<open>The three closures of \<open>ValidateBody\<close>, in the order of the slice.\<close>

definition ValidateBody_known ::
  "('tx, 'rc) Types \<Rightarrow> 'tx BlockValidator \<Rightarrow> 'tx Block \<Rightarrow> error option" where
  "ValidateBody_known T v block =
     (if HasBlockAndState (bc v) (Block_Hash T block) (NumberU64 block)
      then Some ErrKnownBlock else None)"

definition ValidateBody_txroot ::
  "('tx, 'rc) Types \<Rightarrow> 'tx Block \<Rightarrow> error option" where
  "ValidateBody_txroot T block =
     (let hash = DeriveSha_txs T (transactions block)
      in if hash \<noteq> TxHash (header block)
         then Some (TxRootMismatch hash (TxHash (header block))) else None)"

definition ValidateBody_ancestor :: "'tx BlockValidator \<Rightarrow> 'tx Block \<Rightarrow> error option" where
  "ValidateBody_ancestor v block =
     (if \<not> HasBlockAndState (bc v) (Block_ParentHash block) (NumberU64 block - 1) then
        (if \<not> HasBlock (bc v) (Block_ParentHash block) (NumberU64 block - 1)
         then Some ErrUnknownAncestor
         else Some ErrPrunedAncestor)
      else None)"

definition ValidateBody ::
  "('tx, 'rc) Types \<Rightarrow> 'tx BlockValidator \<Rightarrow> nat list \<Rightarrow> 'tx Block \<Rightarrow> error option" where
  "ValidateBody T v arrival block =
     (if HasBlockAndState (bc v) (Block_Hash T block) (NumberU64 block)
      then Some ErrKnownBlock
      else
        (case VerifyUncles (engine v) (bc v) block of
           Some err \<Rightarrow> Some err
         | None \<Rightarrow>
            (let hash = CalcUncleHash T (uncles block)
             in if hash \<noteq> UncleHash (header block)
                then Some (UncleRootMismatch hash (UncleHash (header block)))
                else run_validateFuns arrival
                       [ValidateBody_known T v block,
                        ValidateBody_txroot T block,
                        ValidateBody_ancestor v block])))"

subsection \<open>ValidateState\<close>

definition ValidateState_bloom ::
  "('tx, 'rc) Types \<Rightarrow> 'tx Block \<Rightarrow> 'rc list \<Rightarrow> error option" where
  "ValidateState_bloom T block receipts =
     (let rbloom = CreateBloom T receipts
      in if rbloom \<noteq> Bloom (header block)
         then Some (InvalidBloom (Bloom (header block)) rbloom) else None)"

definition ValidateState_receipts ::
  "('tx, 'rc) Types \<Rightarrow> 'tx Block \<Rightarrow> 'rc list \<Rightarrow> error option" where
  "ValidateState_receipts T block receipts =
     (let receiptSha = DeriveSha_receipts T receipts
      in if receiptSha \<noteq> ReceiptHash (header block)
         then Some (InvalidReceiptRoot (ReceiptHash (header block)) receiptSha) else None)"

text \<open>
  The state-root closure. On a mismatch the source first builds \<open>transaction_str\<close>
  from the block's transactions (for a log line that is commented out) and then
  returns the error, which does not mention the string.
\<close>

definition ValidateState_root ::
  "('tx, 'rc) Types \<Rightarrow> 'tx BlockValidator \<Rightarrow> 'tx Block \<Rightarrow> StateDB \<Rightarrow> error option" where
  "ValidateState_root T v block statedb =
     (let root = IntermediateRoot statedb (IsEIP158 (config v) (Number (header block)))
      in if Root (header block) \<noteq> root then
           (let transaction_str =
                  foldl (\<lambda>str oneTrx.
                           case MarshalJSON T oneTrx of
                             Some txJson \<Rightarrow> str @ txJson @ [CHR 0x0A]
                           | None \<Rightarrow> str @ ''marshal json failed tx hash ''
                                        @ TxHashString T oneTrx @ [CHR 0x0A])
                        [] (transactions block)
            in Some (InvalidMerkleRoot (Root (header block)) root))
         else None)"

definition ValidateState ::
  "('tx, 'rc) Types \<Rightarrow> 'tx BlockValidator \<Rightarrow> nat list \<Rightarrow> 'tx Block \<Rightarrow> StateDB
     \<Rightarrow> 'rc list \<Rightarrow> uint64 \<Rightarrow> error option" where
  "ValidateState T v arrival block statedb receipts usedGas =
     (if Block_GasUsed block \<noteq> usedGas
      then Some (InvalidGasUsed (Block_GasUsed block) usedGas)
      else run_validateFuns arrival
             [ValidateState_bloom T block receipts,
              ValidateState_receipts T block receipts,
              ValidateState_root T v block statedb])"

section \<open>The remote-work API\<close>

text \<open>
  Errors an API call returns: the two that \<open>api.go\<close> makes itself, and
  \<open>LoopError\<close> for an error value that comes from elsewhere, such as the ones the
  coordinator loop sends back.
\<close>

datatype api_error = ErrNotSupported | errEthashStopped | LoopError string

text \<open>A work package is a \<open>[5]string\<close>; the zero value holds five empty strings.\<close>

type_synonym work = "string \<times> string \<times> string \<times> string \<times> string"

definition zero_work :: work where
  "zero_work = ('''', '''', '''', '''', '''')"

record 'r Inihash =
  remote :: "'r option"

record 'r API =
  inihash :: "'r Inihash"

text \<open>
  The requests an API call sends to the coordinator loop. Each request also carries
  the reply conduits of its call (\<open>res\<close> and \<open>errc\<close>, \<open>errc\<close>, \<open>done\<close>); what
  they hold is part of the observations below. The loop itself, which owns the work
  package and the hash rates, is the environment of a call.
\<close>

datatype sealWork = SealWork

record mineResult =
  nonce :: "64 word"
  hash :: hash


text \<open>
  What a call sees of the channels each time it is scheduled at a blocking point:
  whether the loop is receiving on a request channel (the channels are unbuffered, so a
  send completes only then), whether \<open>exitCh\<close> is closed, and what the reply conduits
  of this call hold (\<open>errc\<close> may hold a nil error). When several cases of a
  \<open>select\<close> are ready Go picks one at random; \<open>pick_second\<close> is that pick.
  A run of a call is driven by the list of these observations, in time order; the
  result \<open>None\<close> means that the call is still blocked when the list ends.
\<close>

record chans =
  fetchWorkCh_recv :: bool
  submitWorkCh_recv :: bool
  submitRateCh_recv :: bool
  exitCh_closed :: bool
  workCh :: "work option"
  errc :: "api_error option option"
  doneCh :: bool
  pick_second :: bool

subsection \<open>GetWork\<close>

text \<open>The second \<open>select\<close> of \<open>GetWork\<close>: a work package or an error from the loop.\<close>

fun GetWork_await :: "chans list \<Rightarrow> (work \<times> api_error option) option" where
  "GetWork_await [] = None"
| "GetWork_await (c # cs) =
     (case (workCh c, errc c) of
        (None, None) \<Rightarrow> GetWork_await cs
      | (Some work, None) \<Rightarrow> Some (work, None)
      | (None, Some err) \<Rightarrow> Some (zero_work, err)
      | (Some work, Some err) \<Rightarrow>
          if pick_second c then Some (zero_work, err) else Some (work, None))"

text \<open>
  The first \<open>select\<close>: send the request, or see the shutdown signal. The first
  component of the result is the request handed to the loop, if any.
\<close>

fun GetWork_send :: "chans list \<Rightarrow> sealWork option \<times> (work \<times> api_error option) option" where
  "GetWork_send [] = (None, None)"
| "GetWork_send (c # cs) =
     (if fetchWorkCh_recv c \<and> \<not> (exitCh_closed c \<and> pick_second c)
      then (Some SealWork, GetWork_await cs)
      else if exitCh_closed c then (None, Some (zero_work, Some errEthashStopped))
      else GetWork_send cs)"

definition GetWork ::
  "'r API \<Rightarrow> chans list \<Rightarrow> sealWork option \<times> (work \<times> api_error option) option" where
  "GetWork api cs =
     (if remote (inihash api) = None then (None, Some (zero_work, Some ErrNotSupported))
      else GetWork_send cs)"

subsection \<open>SubmitWork\<close>




subsection \<open>SubmitHashrate\<close>




subsection \<open>Example observations\<close>

text \<open>
  Nothing ready; the shutdown signal given; the loop receiving on the request channels;
  and the three replies of the loop.
\<close>

definition idle :: chans where
  "idle = \<lparr>fetchWorkCh_recv = False, submitWorkCh_recv = False, submitRateCh_recv = False,
           exitCh_closed = False, workCh = None, errc = None, doneCh = False,
           pick_second = False\<rparr>"

definition shut_down :: chans where
  "shut_down = idle\<lparr>exitCh_closed := True\<rparr>"

definition loop_receiving :: chans where
  "loop_receiving = idle\<lparr>fetchWorkCh_recv := True, submitWorkCh_recv := True,
                         submitRateCh_recv := True\<rparr>"

definition remote_on :: "unit API" where
  "remote_on = \<lparr>inihash = \<lparr>remote = Some ()\<rparr>\<rparr>"

definition remote_off :: "unit API" where
  "remote_off = \<lparr>inihash = \<lparr>remote = None\<rparr>\<rparr>"

definition loop_replies_error :: chans where
  "loop_replies_error = idle\<lparr>errc := Some (Some (LoopError ''no mining work available yet''))\<rparr>"

definition loop_replies_work :: chans where
  "loop_replies_work = idle\<lparr>workCh := Some (''0x1'', ''0x2'', ''0x3'', ''0x4'', ''algo'')\<rparr>"



section \<open>Example inputs\<close>

text \<open>
  Collaborators with fixed answers: every header hashes to 77, every uncle list to 11,
  every transaction list to 22, every receipt list to 33 and blooms to 44. The example
  header declares exactly these roots, state root 55 and parent 66. A chain is given by
  the hashes it knows with state and the hashes it knows without.
\<close>

definition example_types :: "(unit, unit) Types" where
  "example_types =
     \<lparr>HeaderHash = (\<lambda>h. 77), CalcUncleHash = (\<lambda>us. 11), DeriveSha_txs = (\<lambda>txs. 22),
      DeriveSha_receipts = (\<lambda>rs. 33), CreateBloom = (\<lambda>rs. 44),
      MarshalJSON = (\<lambda>tx. None), TxHashString = (\<lambda>tx. ''0x'')\<rparr>"

definition example_header :: Header where
  "example_header =
     \<lparr>ParentHash = 66, UncleHash = 11, Root = 55, TxHash = 22, ReceiptHash = 33,
      Bloom = 44, Number = 8, GasLimit = 10000000, GasUsed = 21000\<rparr>"

definition example_block :: "unit Block" where
  "example_block = \<lparr>header = example_header, transactions = [], uncles = []\<rparr>"

definition bad_uncle_root_block :: "unit Block" where
  "bad_uncle_root_block = example_block\<lparr>header := example_header\<lparr>UncleHash := 12\<rparr>\<rparr>"

definition bad_tx_root_block :: "unit Block" where
  "bad_tx_root_block = example_block\<lparr>header := example_header\<lparr>TxHash := 23\<rparr>\<rparr>"

definition example_chain :: "hash set \<Rightarrow> hash set \<Rightarrow> BlockChain" where
  "example_chain with_state known =
     \<lparr>HasBlockAndState = (\<lambda>h n. h \<in> with_state),
      HasBlock = (\<lambda>h n. h \<in> with_state \<or> h \<in> known)\<rparr>"

definition example_validator ::
  "hash set \<Rightarrow> hash set \<Rightarrow> error option \<Rightarrow> unit BlockValidator" where
  "example_validator with_state known uncle_result =
     \<lparr>config = \<lparr>IsEIP158 = (\<lambda>n. True)\<rparr>,
      bc = example_chain with_state known,
      engine = \<lparr>VerifyUncles = (\<lambda>chain b. uncle_result)\<rparr>\<rparr>"

definition example_statedb :: "hash \<Rightarrow> StateDB" where
  "example_statedb r = \<lparr>IntermediateRoot = (\<lambda>deleteEmpty. r)\<rparr>"

section \<open>Properties of the gas-limit calculator\<close>

lemmas gas_defs = CalcGasLimit_def CalcGasLimit_decay_def CalcGasLimit_limit_def
  CalcGasLimit_contrib_def Block_GasUsed_def Block_GasLimit_def

lemmas gas_examples = gas_parent_def params_1024_def

text \<open>The chain of assignments of the source, as maxima and minima.\<close>

lemma adjust_eq:
  fixes l0 :: "'a::linorder"
  shows "(if (if l0 < m then m else l0) < f then (if a > f then f else a)
         else if (if l0 < m then m else l0) > c then (if b < c then c else b)
         else (if l0 < m then m else l0)) =
     (if max l0 m < f then min a f else if max l0 m > c then max b c else max l0 m)"
  by (auto simp: max_def min_def)

lemma CalcGasLimit_max_min:
  "CalcGasLimit p parent gasFloor gasCeil =
     (if max (CalcGasLimit_limit p parent) (MinGasLimit p) < gasFloor
      then min (Block_GasLimit parent + CalcGasLimit_decay p parent) gasFloor
      else if gasCeil < max (CalcGasLimit_limit p parent) (MinGasLimit p)
      then max (Block_GasLimit parent - CalcGasLimit_decay p parent) gasCeil
      else max (CalcGasLimit_limit p parent) (MinGasLimit p))"
  unfolding CalcGasLimit_def by (simp only: Let_def adjust_eq)

lemma unat_minus_1_64: "unat (- 1 :: 64 word) = 2 ^ 64 - 1"
  by (simp add: unsigned_minus_1_eq_mask mask_eq_exp_minus_1)

lemma decay_wrapped:
  "Block_GasLimit parent < GasLimitBoundDivisor p \<Longrightarrow> CalcGasLimit_decay p parent = - 1"
  by (simp add: CalcGasLimit_decay_def div_word_less)

text \<open>Either the decay has wrapped around, or it is at most the parent's limit.\<close>

lemma decay_cases:
  "CalcGasLimit_decay p parent = - 1 \<or> CalcGasLimit_decay p parent \<le> Block_GasLimit parent"
proof (cases "Block_GasLimit parent div GasLimitBoundDivisor p = 0")
  case True
  then show ?thesis by (simp add: CalcGasLimit_decay_def)
next
  case False
  then have "unat (Block_GasLimit parent div GasLimitBoundDivisor p - 1)
      = unat (Block_GasLimit parent div GasLimitBoundDivisor p) - 1"
    by (rule unat_minus_one)
  also have "\<dots> \<le> unat (Block_GasLimit parent)"
    using div_le_dividend [of "unat (Block_GasLimit parent)" "unat (GasLimitBoundDivisor p)"]
    by (simp add: unat_div del: div_le_dividend)
  finally show ?thesis
    by (simp add: CalcGasLimit_decay_def word_le_nat_alt)
qed

text \<open>
  Claim C2, as amended. \<open>CalcGasLimit\<close> returns exactly the value of the six-step
  algorithm in 64-bit unsigned arithmetic with truncating division, in this order of
  operations: the contribution, the decay, the limit floored at the minimum gas limit;
  below the floor the result is the parent's limit plus the decay, capped at the floor;
  above the ceiling the result is the parent's limit minus the decay, raised to the
  ceiling when it falls below it (not capped at it); otherwise the limit.
\<close>

theorem CalcGasLimit_algorithm:
  "CalcGasLimit p parent floor ceiling =
     CalcGasLimit_steps p (Block_GasUsed parent) (Block_GasLimit parent) floor ceiling"
  unfolding CalcGasLimit_def CalcGasLimit_steps_def CalcGasLimit_decay_def
    CalcGasLimit_limit_def CalcGasLimit_contrib_def
  by (simp only: Let_def adjust_eq)

theorem CalcGasLimit_algorithm_witness:
  "CalcGasLimit params_1024 (gas_parent 0 20000000) 8000000 12000000 = 19980470"
  using CalcGasLimit_algorithm [of params_1024 "gas_parent 0 20000000" 8000000 12000000]
  by (simp add: CalcGasLimit_steps_def Block_GasUsed_def Block_GasLimit_def gas_examples)

text \<open>
  Claim C2 as stated fails: a parent limit of 20,000,000 with no gas used lies above the
  ceiling of 12,000,000, the code returns the parent's limit minus the decay, 19,980,470,
  and the algorithm that caps this value at the ceiling gives 12,000,000.
\<close>

theorem CalcGasLimit_algorithm_counterexample:
  "CalcGasLimit params_1024 (gas_parent 0 20000000) 8000000 12000000 = 19980470 \<and>
   CalcGasLimit_spec params_1024 0 20000000 8000000 12000000 = 12000000"
  by (simp add: gas_defs gas_examples CalcGasLimit_spec_def)

text \<open>
  Claim C4, as amended. When the parent's gas limit and the ceiling are both at least
  the minimum gas limit, and the parent's limit plus the decay does not overflow 64
  bits (so the decay has not wrapped around unless the parent's limit is zero), the
  value that \<open>CalcGasLimit\<close> returns lies in the closed interval from the minimum
  gas limit to the larger of the ceiling and the parent's limit plus the decay.
\<close>

theorem CalcGasLimit_bounds:
  assumes min_parent: "MinGasLimit p \<le> Block_GasLimit parent"
    and min_ceil: "MinGasLimit p \<le> gasCeil"
    and no_overflow:
      "unat (Block_GasLimit parent) + unat (CalcGasLimit_decay p parent) < 2 ^ 64"
  shows "MinGasLimit p \<le> CalcGasLimit p parent gasFloor gasCeil \<and>
     CalcGasLimit p parent gasFloor gasCeil
       \<le> max gasCeil (Block_GasLimit parent + CalcGasLimit_decay p parent)"
proof -
  let ?g = "Block_GasLimit parent" and ?d = "CalcGasLimit_decay p parent"
  have sum: "unat (?g + ?d) = unat ?g + unat ?d"
    using no_overflow by (simp add: unat_add_lem [THEN iffD1])
  then have up: "?g \<le> ?g + ?d"
    by (simp add: word_le_nat_alt)
  have down: "?g - ?d \<le> ?g + ?d"
  proof (cases "?d = - 1")
    case True
    with no_overflow have "unat ?g = 0" by (simp add: unat_minus_1_64)
    then have "?g = 0" by (simp add: unat_eq_0)
    with True show ?thesis by simp
  next
    case False
    with decay_cases [of p parent] have "?d \<le> ?g" by simp
    then have "unat (?g - ?d) = unat ?g - unat ?d" by (rule unat_sub)
    then show ?thesis using sum by (simp add: word_le_nat_alt)
  qed
  show ?thesis
    unfolding CalcGasLimit_max_min
    using min_parent min_ceil up down
    by (auto simp: max_def min_def not_less split: if_splits)
qed

theorem CalcGasLimit_bounds_witness:
  "MinGasLimit params_1024 \<le> Block_GasLimit (gas_parent 9000000 10000000) \<and>
   MinGasLimit params_1024 \<le> 12000000 \<and>
   unat (Block_GasLimit (gas_parent 9000000 10000000))
     + unat (CalcGasLimit_decay params_1024 (gas_parent 9000000 10000000)) < 2 ^ 64 \<and>
   MinGasLimit params_1024
     \<le> CalcGasLimit params_1024 (gas_parent 9000000 10000000) 8000000 12000000 \<and>
   CalcGasLimit params_1024 (gas_parent 9000000 10000000) 8000000 12000000 \<le> 12000000"
proof -
  have h1: "MinGasLimit params_1024 \<le> Block_GasLimit (gas_parent 9000000 10000000)"
    by (simp add: gas_defs gas_examples)
  have h2: "MinGasLimit params_1024 \<le> 12000000"
    by (simp add: gas_examples)
  have h3: "unat (Block_GasLimit (gas_parent 9000000 10000000))
     + unat (CalcGasLimit_decay params_1024 (gas_parent 9000000 10000000)) < 2 ^ 64"
    by (simp add: gas_defs gas_examples)
  have "max 12000000 (Block_GasLimit (gas_parent 9000000 10000000)
      + CalcGasLimit_decay params_1024 (gas_parent 9000000 10000000)) = (12000000 :: uint64)"
    by (simp add: gas_defs gas_examples)
  with CalcGasLimit_bounds [OF h1 h2 h3, of 8000000] h1 h2 h3 show ?thesis
    by simp
qed

text \<open>
  Claim C4 as stated fails, and each hypothesis of the amended claim is needed. A
  parent limit of 1024, below the minimum of 5000, gives 1024. A ceiling of 4000, below
  the minimum, gives 4997 for a parent limit of 5000. A parent limit of \<open>2 ^ 64 - 1\<close>
  gives a result above both the ceiling and the wrapped sum of the parent's limit and
  the decay.
\<close>

theorem CalcGasLimit_bounds_counterexample:
  "CalcGasLimit params_1024 (gas_parent 0 1024) 8000000 12000000 = 1024 \<and>
   \<not> MinGasLimit params_1024 \<le> CalcGasLimit params_1024 (gas_parent 0 1024) 8000000 12000000 \<and>
   CalcGasLimit params_1024 (gas_parent 0 5000) 0 4000 = 4997 \<and>
   \<not> MinGasLimit params_1024 \<le> CalcGasLimit params_1024 (gas_parent 0 5000) 0 4000 \<and>
   \<not> CalcGasLimit params_1024 (gas_parent 0 18446744073709551615) 8000000 12000000
       \<le> max 12000000 (Block_GasLimit (gas_parent 0 18446744073709551615 :: unit Block)
             + CalcGasLimit_decay params_1024 (gas_parent 0 18446744073709551615))"
  by (simp add: gas_defs gas_examples)

text \<open>
  Claim C7. For a parent with gas limit 10,000,000 and gas used 9,000,000, a bound
  divisor of 1024, a floor of 8,000,000 and a ceiling of 12,000,000, the contribution is
  13,183, the decay is 9,764, the limit is 10,003,419, and \<open>CalcGasLimit\<close> returns
  10,003,419. The minimum gas limit is a constant of the \<open>params\<close> package; the
  result needs it to be at most 10,003,419.
\<close>

theorem CalcGasLimit_worked_example:
  assumes "GasLimitBoundDivisor p = 1024" and "MinGasLimit p \<le> 10003419"
    and "Block_GasLimit parent = 10000000" and "Block_GasUsed parent = 9000000"
  shows "CalcGasLimit_contrib p parent = 13183 \<and>
    CalcGasLimit_decay p parent = 9764 \<and>
    CalcGasLimit_limit p parent = 10003419 \<and>
    CalcGasLimit p parent 8000000 12000000 = 10003419"
proof -
  have c: "CalcGasLimit_contrib p parent = 13183"
    using assms by (simp add: CalcGasLimit_contrib_def)
  have d: "CalcGasLimit_decay p parent = 9764"
    using assms by (simp add: CalcGasLimit_decay_def)
  have l: "CalcGasLimit_limit p parent = 10003419"
    using assms by (simp add: CalcGasLimit_limit_def c d)
  have "max (10003419 :: uint64) (MinGasLimit p) = 10003419"
    using assms(2) by (simp add: max_def)
  then have "CalcGasLimit p parent 8000000 12000000 = 10003419"
    by (simp add: CalcGasLimit_max_min l)
  with c d l show ?thesis by simp
qed

theorem CalcGasLimit_worked_example_witness:
  "GasLimitBoundDivisor params_1024 = 1024 \<and> MinGasLimit params_1024 \<le> 10003419 \<and>
   Block_GasLimit (gas_parent 9000000 10000000) = 10000000 \<and>
   Block_GasUsed (gas_parent 9000000 10000000) = 9000000 \<and>
   CalcGasLimit params_1024 (gas_parent 9000000 10000000) 8000000 12000000 = 10003419"
proof -
  have h1: "GasLimitBoundDivisor params_1024 = 1024"
    and h2: "MinGasLimit params_1024 \<le> 10003419"
    and h3: "Block_GasLimit (gas_parent 9000000 10000000) = 10000000"
    and h4: "Block_GasUsed (gas_parent 9000000 10000000) = 9000000"
    by (simp_all add: gas_examples Block_GasLimit_def Block_GasUsed_def)
  from CalcGasLimit_worked_example [OF h1 h2 h3 h4] h1 h2 h3 h4 show ?thesis
    by simp
qed

text \<open>
  Claim C9. When the parent's gas limit is below the bound divisor, the decay wraps
  around to \<open>2 ^ 64 - 1\<close>, the limit is the parent's limit plus the contribution plus
  one modulo \<open>2 ^ 64\<close>, and the result of \<open>CalcGasLimit\<close> is fixed by this modular
  arithmetic: below the floor it is the parent's limit minus one capped at the floor,
  above the ceiling the parent's limit plus one raised to the ceiling, and in the
  typical case, within the bounds, the parent's limit plus the contribution plus one.
\<close>

theorem CalcGasLimit_decay_wraps:
  assumes "Block_GasLimit parent < GasLimitBoundDivisor p"
  shows "unat (CalcGasLimit_decay p parent) = 2 ^ 64 - 1 \<and>
    CalcGasLimit_limit p parent = Block_GasLimit parent + CalcGasLimit_contrib p parent + 1 \<and>
    CalcGasLimit p parent gasFloor gasCeil =
     (let limit = max (Block_GasLimit parent + CalcGasLimit_contrib p parent + 1) (MinGasLimit p)
      in if limit < gasFloor then min (Block_GasLimit parent - 1) gasFloor
         else if gasCeil < limit then max (Block_GasLimit parent + 1) gasCeil
         else limit) \<and>
    (MinGasLimit p \<le> Block_GasLimit parent + CalcGasLimit_contrib p parent + 1 \<and>
     gasFloor \<le> Block_GasLimit parent + CalcGasLimit_contrib p parent + 1 \<and>
     Block_GasLimit parent + CalcGasLimit_contrib p parent + 1 \<le> gasCeil \<longrightarrow>
       CalcGasLimit p parent gasFloor gasCeil =
         Block_GasLimit parent + CalcGasLimit_contrib p parent + 1)"
proof -
  have d: "CalcGasLimit_decay p parent = - 1"
    using assms by (rule decay_wrapped)
  have l: "CalcGasLimit_limit p parent = Block_GasLimit parent + CalcGasLimit_contrib p parent + 1"
    by (simp add: CalcGasLimit_limit_def d)
  show ?thesis
    by (auto simp: CalcGasLimit_max_min d l Let_def unat_minus_1_64 max_def not_less)
qed

theorem CalcGasLimit_decay_wraps_witness:
  "Block_GasLimit (gas_parent 9000000 1000) < GasLimitBoundDivisor params_1024 \<and>
   unat (CalcGasLimit_decay params_1024 (gas_parent 9000000 1000)) = 18446744073709551615 \<and>
   CalcGasLimit_limit params_1024 (gas_parent 9000000 1000) = 14184 \<and>
   CalcGasLimit params_1024 (gas_parent 9000000 1000) 0 12000000 = 14184"
proof -
  have h: "Block_GasLimit (gas_parent 9000000 1000) < GasLimitBoundDivisor params_1024"
    by (simp add: gas_examples Block_GasLimit_def)
  have c: "CalcGasLimit_contrib params_1024 (gas_parent 9000000 1000) = 13183"
    and g: "Block_GasLimit (gas_parent 9000000 1000) = 1000"
    and m: "MinGasLimit params_1024 = 5000"
    by (simp_all add: gas_examples CalcGasLimit_contrib_def Block_GasUsed_def Block_GasLimit_def)
  from CalcGasLimit_decay_wraps [OF h, of 0 12000000] h show ?thesis
    by (simp add: c g m)
qed

section \<open>Properties of the block validator\<close>

lemmas example_defs = example_types_def example_header_def example_block_def
  example_chain_def example_validator_def

lemmas vb_defs = ValidateBody_def ValidateBody_known_def ValidateBody_txroot_def
  ValidateBody_ancestor_def run_validateFuns_def Block_Hash_def Block_ParentHash_def
  NumberU64_def

subsection \<open>The receive loop under any arrival order\<close>

lemma receive_results_None: "receive_results rs = None \<longleftrightarrow> (\<forall>r \<in> set rs. r = None)"
  by (induction rs) (auto split: option.splits)

lemma receive_results_Some: "receive_results rs = Some e \<Longrightarrow> Some e \<in> set rs"
  by (induction rs) (auto split: option.splits)

lemma receive_results_only:
  "Some e \<in> set rs \<Longrightarrow> (\<forall>r \<in> set rs. r = None \<or> r = Some e) \<Longrightarrow> receive_results rs = Some e"
  by (induction rs) (auto split: option.splits)

lemma arrival_image:
  assumes "arrival_order arrival"
  shows "set (map (\<lambda>i. [a, b, c] ! i) arrival) = {a, b, c}"
proof -
  have "set (map (\<lambda>i. [a, b, c] ! i) arrival) = (\<lambda>i. [a, b, c] ! i) ` {0, 1, 2}"
    using assms by (simp add: arrival_order_def)
  then show ?thesis by simp
qed

lemma run_validateFuns_None:
  assumes "arrival_order arrival"
  shows "run_validateFuns arrival [a, b, c] = None \<longleftrightarrow> a = None \<and> b = None \<and> c = None"
proof -
  have "run_validateFuns arrival [a, b, c] = None \<longleftrightarrow>
      (\<forall>r \<in> set (map (\<lambda>i. [a, b, c] ! i) arrival). r = None)"
    unfolding run_validateFuns_def by (rule receive_results_None)
  also have "\<dots> \<longleftrightarrow> (\<forall>r \<in> {a, b, c}. r = None)"
    by (simp only: arrival_image [OF assms])
  finally show ?thesis by simp
qed

lemma run_validateFuns_Some:
  assumes "arrival_order arrival" and "run_validateFuns arrival [a, b, c] = Some e"
  shows "a = Some e \<or> b = Some e \<or> c = Some e"
proof -
  have "Some e \<in> set (map (\<lambda>i. [a, b, c] ! i) arrival)"
    using assms(2) unfolding run_validateFuns_def by (rule receive_results_Some)
  then have "Some e \<in> {a, b, c}"
    by (simp only: arrival_image [OF assms(1)])
  then show ?thesis by auto
qed

lemma run_validateFuns_only:
  assumes "arrival_order arrival"
    and "Some e \<in> {a, b, c}" and "\<forall>r \<in> {a, b, c}. r = None \<or> r = Some e"
  shows "run_validateFuns arrival [a, b, c] = Some e"
  unfolding run_validateFuns_def
  by (rule receive_results_only) (use assms in \<open>simp_all only: arrival_image\<close>)

lemma arrival_201: "arrival_order [2, 0, 1]"
  by (auto simp: arrival_order_def)

lemma arrival_120: "arrival_order [1, 2, 0]"
  by (auto simp: arrival_order_def)

subsection \<open>ValidateBody\<close>

text \<open>Once the three sequential checks have passed, the result is that of the tasks.\<close>

lemma ValidateBody_pass:
  assumes "\<not> HasBlockAndState (bc v) (Block_Hash T block) (NumberU64 block)"
    and "VerifyUncles (engine v) (bc v) block = None"
    and "CalcUncleHash T (uncles block) = UncleHash (header block)"
  shows "ValidateBody T v arrival block =
     run_validateFuns arrival
       [ValidateBody_known T v block, ValidateBody_txroot T block, ValidateBody_ancestor v block]"
  using assms by (simp add: ValidateBody_def)

text \<open>
  Claim C1. Under every arrival order of the three task results, \<open>ValidateBody\<close>
  returns nil if and only if the recomputed uncle root equals the header's, the
  recomputed transaction root equals the header's, the parent is known with state, the
  engine's uncle verification passes and the block is not already known with state;
  and every error it returns is the error of a condition that is violated.
\<close>

theorem ValidateBody_succeeds_iff:
  assumes "arrival_order arrival"
  shows "(ValidateBody T v arrival block = None \<longleftrightarrow>
      CalcUncleHash T (uncles block) = UncleHash (header block) \<and>
      DeriveSha_txs T (transactions block) = TxHash (header block) \<and>
      HasBlockAndState (bc v) (Block_ParentHash block) (NumberU64 block - 1) \<and>
      VerifyUncles (engine v) (bc v) block = None \<and>
      \<not> HasBlockAndState (bc v) (Block_Hash T block) (NumberU64 block)) \<and>
    (\<forall>e. ValidateBody T v arrival block = Some e \<longrightarrow>
      e = ErrKnownBlock \<and> HasBlockAndState (bc v) (Block_Hash T block) (NumberU64 block) \<or>
      VerifyUncles (engine v) (bc v) block = Some e \<or>
      e = UncleRootMismatch (CalcUncleHash T (uncles block)) (UncleHash (header block)) \<and>
        CalcUncleHash T (uncles block) \<noteq> UncleHash (header block) \<or>
      e = TxRootMismatch (DeriveSha_txs T (transactions block)) (TxHash (header block)) \<and>
        DeriveSha_txs T (transactions block) \<noteq> TxHash (header block) \<or>
      e = ErrUnknownAncestor \<and>
        \<not> HasBlockAndState (bc v) (Block_ParentHash block) (NumberU64 block - 1) \<and>
        \<not> HasBlock (bc v) (Block_ParentHash block) (NumberU64 block - 1) \<or>
      e = ErrPrunedAncestor \<and>
        \<not> HasBlockAndState (bc v) (Block_ParentHash block) (NumberU64 block - 1) \<and>
        HasBlock (bc v) (Block_ParentHash block) (NumberU64 block - 1))"
proof (intro conjI allI impI)
  show "ValidateBody T v arrival block = None \<longleftrightarrow>
      CalcUncleHash T (uncles block) = UncleHash (header block) \<and>
      DeriveSha_txs T (transactions block) = TxHash (header block) \<and>
      HasBlockAndState (bc v) (Block_ParentHash block) (NumberU64 block - 1) \<and>
      VerifyUncles (engine v) (bc v) block = None \<and>
      \<not> HasBlockAndState (bc v) (Block_Hash T block) (NumberU64 block)"
    using assms
    by (auto simp: ValidateBody_def Let_def run_validateFuns_None ValidateBody_known_def
        ValidateBody_txroot_def ValidateBody_ancestor_def split: option.splits)
next
  fix e
  assume ret: "ValidateBody T v arrival block = Some e"
  show "e = ErrKnownBlock \<and> HasBlockAndState (bc v) (Block_Hash T block) (NumberU64 block) \<or>
      VerifyUncles (engine v) (bc v) block = Some e \<or>
      e = UncleRootMismatch (CalcUncleHash T (uncles block)) (UncleHash (header block)) \<and>
        CalcUncleHash T (uncles block) \<noteq> UncleHash (header block) \<or>
      e = TxRootMismatch (DeriveSha_txs T (transactions block)) (TxHash (header block)) \<and>
        DeriveSha_txs T (transactions block) \<noteq> TxHash (header block) \<or>
      e = ErrUnknownAncestor \<and>
        \<not> HasBlockAndState (bc v) (Block_ParentHash block) (NumberU64 block - 1) \<and>
        \<not> HasBlock (bc v) (Block_ParentHash block) (NumberU64 block - 1) \<or>
      e = ErrPrunedAncestor \<and>
        \<not> HasBlockAndState (bc v) (Block_ParentHash block) (NumberU64 block - 1) \<and>
        HasBlock (bc v) (Block_ParentHash block) (NumberU64 block - 1)"
  proof (cases "\<not> HasBlockAndState (bc v) (Block_Hash T block) (NumberU64 block) \<and>
      VerifyUncles (engine v) (bc v) block = None \<and>
      CalcUncleHash T (uncles block) = UncleHash (header block)")
    case True
    with ret have "run_validateFuns arrival
       [ValidateBody_known T v block, ValidateBody_txroot T block, ValidateBody_ancestor v block]
        = Some e"
      by (simp add: ValidateBody_pass)
    from run_validateFuns_Some [OF assms this] show ?thesis
      by (auto simp: ValidateBody_known_def ValidateBody_txroot_def ValidateBody_ancestor_def
          Let_def split: if_splits)
  next
    case False
    with ret show ?thesis
      by (auto simp: ValidateBody_def Let_def split: if_splits option.splits)
  qed
qed

theorem ValidateBody_succeeds_iff_witness:
  "arrival_order [2, 0, 1] \<and>
   ValidateBody example_types (example_validator {66} {} None) [2, 0, 1] example_block = None \<and>
   ValidateBody example_types (example_validator {} {66} None) [2, 0, 1] example_block
     = Some ErrPrunedAncestor"
proof -
  note inst = ValidateBody_succeeds_iff [OF arrival_201,
      of example_types "example_validator {66} {} None" example_block]
  have pass: "ValidateBody example_types (example_validator {66} {} None) [2, 0, 1] example_block
      = None"
    using inst by (simp add: example_defs Block_Hash_def Block_ParentHash_def NumberU64_def)
  have "ValidateBody example_types (example_validator {} {66} None) [2, 0, 1] example_block
      = Some ErrPrunedAncestor"
    by (simp add: example_defs vb_defs)
  with pass arrival_201 show ?thesis by simp
qed

text \<open>
  Claim C10, as amended. The known-block check, the engine's uncle verification and the
  uncle-root comparison run in this order before any task is dispatched, so their
  outcome does not depend on the arrival order. A block already known with state
  returns \<open>ErrKnownBlock\<close>, whatever its uncles. A block not already known that fails
  uncle verification returns the engine's error, and one that passes it with an
  uncle-root mismatch returns the uncle-root error, also when the transaction root
  mismatches or the ancestor is missing. Only when all three pass is the result decided
  by the arrival order of the known-block, transaction-root and ancestor tasks.
\<close>

theorem ValidateBody_sequential_prefix:
  "(HasBlockAndState (bc v) (Block_Hash T block) (NumberU64 block) \<longrightarrow>
      ValidateBody T v arrival block = Some ErrKnownBlock) \<and>
   (\<not> HasBlockAndState (bc v) (Block_Hash T block) (NumberU64 block) \<and>
    VerifyUncles (engine v) (bc v) block = Some e \<longrightarrow>
      ValidateBody T v arrival block = Some e) \<and>
   (\<not> HasBlockAndState (bc v) (Block_Hash T block) (NumberU64 block) \<and>
    VerifyUncles (engine v) (bc v) block = None \<and>
    CalcUncleHash T (uncles block) \<noteq> UncleHash (header block) \<longrightarrow>
      ValidateBody T v arrival block =
        Some (UncleRootMismatch (CalcUncleHash T (uncles block)) (UncleHash (header block)))) \<and>
   (\<not> HasBlockAndState (bc v) (Block_Hash T block) (NumberU64 block) \<and>
    VerifyUncles (engine v) (bc v) block = None \<and>
    CalcUncleHash T (uncles block) = UncleHash (header block) \<longrightarrow>
      ValidateBody T v arrival block =
        run_validateFuns arrival
          [ValidateBody_known T v block, ValidateBody_txroot T block,
           ValidateBody_ancestor v block] \<and>
      (arrival_order arrival \<longrightarrow>
        (\<forall>err. ValidateBody T v arrival block = Some err \<longrightarrow>
           err = TxRootMismatch (DeriveSha_txs T (transactions block)) (TxHash (header block)) \<or>
           err = ErrUnknownAncestor \<or> err = ErrPrunedAncestor)))"
proof -
  have known: "HasBlockAndState (bc v) (Block_Hash T block) (NumberU64 block) \<longrightarrow>
      ValidateBody T v arrival block = Some ErrKnownBlock"
    by (simp add: ValidateBody_def)
  have uncles_fail: "\<not> HasBlockAndState (bc v) (Block_Hash T block) (NumberU64 block) \<and>
      VerifyUncles (engine v) (bc v) block = Some e \<longrightarrow>
        ValidateBody T v arrival block = Some e"
    by (simp add: ValidateBody_def)
  have uncle_root: "\<not> HasBlockAndState (bc v) (Block_Hash T block) (NumberU64 block) \<and>
      VerifyUncles (engine v) (bc v) block = None \<and>
      CalcUncleHash T (uncles block) \<noteq> UncleHash (header block) \<longrightarrow>
        ValidateBody T v arrival block =
          Some (UncleRootMismatch (CalcUncleHash T (uncles block)) (UncleHash (header block)))"
    by (simp add: ValidateBody_def Let_def)
  have tasks: "ValidateBody T v arrival block =
        run_validateFuns arrival
          [ValidateBody_known T v block, ValidateBody_txroot T block,
           ValidateBody_ancestor v block] \<and>
      (arrival_order arrival \<longrightarrow>
        (\<forall>err. ValidateBody T v arrival block = Some err \<longrightarrow>
           err = TxRootMismatch (DeriveSha_txs T (transactions block)) (TxHash (header block)) \<or>
           err = ErrUnknownAncestor \<or> err = ErrPrunedAncestor))"
    if pass: "\<not> HasBlockAndState (bc v) (Block_Hash T block) (NumberU64 block) \<and>
      VerifyUncles (engine v) (bc v) block = None \<and>
      CalcUncleHash T (uncles block) = UncleHash (header block)"
  proof (intro conjI impI allI)
    show run: "ValidateBody T v arrival block =
        run_validateFuns arrival
          [ValidateBody_known T v block, ValidateBody_txroot T block,
           ValidateBody_ancestor v block]"
      using pass by (simp add: ValidateBody_pass)
    fix err
    assume order: "arrival_order arrival" and ret: "ValidateBody T v arrival block = Some err"
    from run_validateFuns_Some [OF order ret [unfolded run]] pass
    show "err = TxRootMismatch (DeriveSha_txs T (transactions block)) (TxHash (header block)) \<or>
        err = ErrUnknownAncestor \<or> err = ErrPrunedAncestor"
      by (auto simp: ValidateBody_known_def ValidateBody_txroot_def ValidateBody_ancestor_def
          Let_def split: if_splits)
  qed
  from known uncles_fail uncle_root tasks show ?thesis
    by blast
qed

theorem ValidateBody_sequential_prefix_witness:
  "ValidateBody example_types
      (example_validator {} {} (Some (EngineError ''too many uncles''))) [1, 2, 0]
      bad_tx_root_block = Some (EngineError ''too many uncles'') \<and>
   ValidateBody example_types (example_validator {} {} None) [1, 2, 0]
      (bad_tx_root_block\<lparr>header := header bad_tx_root_block\<lparr>UncleHash := 12\<rparr>\<rparr>)
     = Some (UncleRootMismatch 11 12) \<and>
   ValidateBody example_types (example_validator {} {} None) [1, 2, 0] bad_tx_root_block
     = Some (TxRootMismatch 22 23) \<and>
   ValidateBody example_types (example_validator {} {} None) [2, 1, 0] bad_tx_root_block
     = Some ErrUnknownAncestor"
proof -
  have 1: "ValidateBody example_types
      (example_validator {} {} (Some (EngineError ''too many uncles''))) [1, 2, 0]
      bad_tx_root_block = Some (EngineError ''too many uncles'')"
    using ValidateBody_sequential_prefix [where
        v = "example_validator {} {} (Some (EngineError ''too many uncles''))"
        and T = example_types and block = bad_tx_root_block
        and e = "EngineError ''too many uncles''" and arrival = "[1, 2, 0]"]
    by (simp add: example_defs bad_tx_root_block_def Block_Hash_def NumberU64_def)
  have 2: "ValidateBody example_types (example_validator {} {} None) [1, 2, 0]
      (bad_tx_root_block\<lparr>header := header bad_tx_root_block\<lparr>UncleHash := 12\<rparr>\<rparr>)
     = Some (UncleRootMismatch 11 12)"
    using ValidateBody_sequential_prefix [where v = "example_validator {} {} None"
        and T = example_types and e = ErrKnownBlock and arrival = "[1, 2, 0]"
        and block = "bad_tx_root_block\<lparr>header := header bad_tx_root_block\<lparr>UncleHash := 12\<rparr>\<rparr>"]
    by (simp add: example_defs bad_tx_root_block_def Block_Hash_def NumberU64_def)
  have 3: "ValidateBody example_types (example_validator {} {} None) [1, 2, 0] bad_tx_root_block
     = Some (TxRootMismatch 22 23)"
    using ValidateBody_sequential_prefix [where v = "example_validator {} {} None"
        and T = example_types and block = bad_tx_root_block and e = ErrKnownBlock
        and arrival = "[1, 2, 0]"]
    by (simp add: example_defs bad_tx_root_block_def vb_defs)
  have 4: "ValidateBody example_types (example_validator {} {} None) [2, 1, 0] bad_tx_root_block
     = Some ErrUnknownAncestor"
    using ValidateBody_sequential_prefix [where v = "example_validator {} {} None"
        and T = example_types and block = bad_tx_root_block and e = ErrKnownBlock
        and arrival = "[2, 1, 0]"]
    by (simp add: example_defs bad_tx_root_block_def vb_defs)
  from 1 2 3 4 show ?thesis by simp
qed

text \<open>
  Claim C10 as stated fails for a block that is already known with state: it fails uncle
  verification, or has an uncle-root mismatch, and \<open>ValidateBody\<close> returns
  \<open>ErrKnownBlock\<close>.
\<close>

theorem ValidateBody_sequential_prefix_counterexample:
  "VerifyUncles (engine (example_validator {77} {} (Some (EngineError ''too many uncles''))))
      (bc (example_validator {77} {} (Some (EngineError ''too many uncles'')))) example_block
     = Some (EngineError ''too many uncles'') \<and>
   ValidateBody example_types
      (example_validator {77} {} (Some (EngineError ''too many uncles''))) [0, 1, 2] example_block
     = Some ErrKnownBlock \<and>
   CalcUncleHash example_types (uncles bad_uncle_root_block)
     \<noteq> UncleHash (header bad_uncle_root_block) \<and>
   ValidateBody example_types (example_validator {77} {} None) [0, 1, 2] bad_uncle_root_block
     = Some ErrKnownBlock"
  by (simp add: example_defs bad_uncle_root_block_def vb_defs)

text \<open>
  Claim C6, as amended. Under every arrival order: for a block that passes the other
  checks (it is not already known with state, its uncles verify, its uncle root and its
  transaction root match), if the parent is known to the chain but not with state,
  \<open>ValidateBody\<close> returns \<open>ErrPrunedAncestor\<close>, and if the parent is not known at
  all, neither with nor without state, it returns \<open>ErrUnknownAncestor\<close>. The two
  errors are never interchanged, for any block, whatever other checks it fails: as long
  as the engine's uncle verification, whose error is passed on unchanged, does not
  itself return the error in question, \<open>ValidateBody\<close> returns
  \<open>ErrPrunedAncestor\<close> only when the parent is known without state and
  \<open>ErrUnknownAncestor\<close> only when the parent is not known at all.
\<close>

theorem ValidateBody_ancestor_errors:
  assumes "arrival_order arrival"
  shows "(\<not> HasBlockAndState (bc v) (Block_Hash T block) (NumberU64 block) \<and>
      VerifyUncles (engine v) (bc v) block = None \<and>
      CalcUncleHash T (uncles block) = UncleHash (header block) \<and>
      DeriveSha_txs T (transactions block) = TxHash (header block) \<longrightarrow>
        (HasBlock (bc v) (Block_ParentHash block) (NumberU64 block - 1) \<and>
         \<not> HasBlockAndState (bc v) (Block_ParentHash block) (NumberU64 block - 1) \<longrightarrow>
           ValidateBody T v arrival block = Some ErrPrunedAncestor) \<and>
        (\<not> HasBlock (bc v) (Block_ParentHash block) (NumberU64 block - 1) \<and>
         \<not> HasBlockAndState (bc v) (Block_ParentHash block) (NumberU64 block - 1) \<longrightarrow>
           ValidateBody T v arrival block = Some ErrUnknownAncestor)) \<and>
    (VerifyUncles (engine v) (bc v) block \<noteq> Some ErrPrunedAncestor \<and>
     ValidateBody T v arrival block = Some ErrPrunedAncestor \<longrightarrow>
       HasBlock (bc v) (Block_ParentHash block) (NumberU64 block - 1) \<and>
       \<not> HasBlockAndState (bc v) (Block_ParentHash block) (NumberU64 block - 1)) \<and>
    (VerifyUncles (engine v) (bc v) block \<noteq> Some ErrUnknownAncestor \<and>
     ValidateBody T v arrival block = Some ErrUnknownAncestor \<longrightarrow>
       \<not> HasBlock (bc v) (Block_ParentHash block) (NumberU64 block - 1) \<and>
       \<not> HasBlockAndState (bc v) (Block_ParentHash block) (NumberU64 block - 1))"
proof -
  have returns: "ValidateBody T v arrival block = ValidateBody_ancestor v block"
    if pass: "\<not> HasBlockAndState (bc v) (Block_Hash T block) (NumberU64 block) \<and>
      VerifyUncles (engine v) (bc v) block = None \<and>
      CalcUncleHash T (uncles block) = UncleHash (header block) \<and>
      DeriveSha_txs T (transactions block) = TxHash (header block)"
  proof -
    have known: "ValidateBody_known T v block = None"
      using pass by (simp add: ValidateBody_known_def)
    have tx: "ValidateBody_txroot T block = None"
      using pass by (simp add: ValidateBody_txroot_def)
    have run: "ValidateBody T v arrival block =
        run_validateFuns arrival [None, None, ValidateBody_ancestor v block]"
      using pass by (simp add: ValidateBody_pass known tx)
    show ?thesis
    proof (cases "ValidateBody_ancestor v block")
      case None
      then show ?thesis using assms by (simp add: run run_validateFuns_None)
    next
      case (Some e)
      have "run_validateFuns arrival [None, None, Some e] = Some e"
        by (rule run_validateFuns_only [OF assms]) simp_all
      with Some show ?thesis by (simp add: run)
    qed
  qed
  have from_task: "ValidateBody_ancestor v block = Some err"
    if ret: "ValidateBody T v arrival block = Some err"
      and engine: "VerifyUncles (engine v) (bc v) block \<noteq> Some err"
      and ancestor: "err = ErrPrunedAncestor \<or> err = ErrUnknownAncestor"
    for err
  proof (cases "\<not> HasBlockAndState (bc v) (Block_Hash T block) (NumberU64 block) \<and>
      VerifyUncles (engine v) (bc v) block = None \<and>
      CalcUncleHash T (uncles block) = UncleHash (header block)")
    case True
    with ret have "run_validateFuns arrival
       [ValidateBody_known T v block, ValidateBody_txroot T block, ValidateBody_ancestor v block]
        = Some err"
      by (simp add: ValidateBody_pass)
    from run_validateFuns_Some [OF assms this] ancestor show ?thesis
      by (auto simp: ValidateBody_known_def ValidateBody_txroot_def Let_def split: if_splits)
  next
    case False
    with ret engine ancestor show ?thesis
      by (auto simp: ValidateBody_def Let_def split: if_splits option.splits)
  qed
  have pruned: "HasBlock (bc v) (Block_ParentHash block) (NumberU64 block - 1) \<and>
       \<not> HasBlockAndState (bc v) (Block_ParentHash block) (NumberU64 block - 1)"
    if "VerifyUncles (engine v) (bc v) block \<noteq> Some ErrPrunedAncestor \<and>
     ValidateBody T v arrival block = Some ErrPrunedAncestor"
    using from_task [of ErrPrunedAncestor] that
    by (auto simp: ValidateBody_ancestor_def split: if_splits)
  have unknown: "\<not> HasBlock (bc v) (Block_ParentHash block) (NumberU64 block - 1) \<and>
       \<not> HasBlockAndState (bc v) (Block_ParentHash block) (NumberU64 block - 1)"
    if "VerifyUncles (engine v) (bc v) block \<noteq> Some ErrUnknownAncestor \<and>
     ValidateBody T v arrival block = Some ErrUnknownAncestor"
    using from_task [of ErrUnknownAncestor] that
    by (auto simp: ValidateBody_ancestor_def split: if_splits)
  have passing: "(HasBlock (bc v) (Block_ParentHash block) (NumberU64 block - 1) \<and>
         \<not> HasBlockAndState (bc v) (Block_ParentHash block) (NumberU64 block - 1) \<longrightarrow>
           ValidateBody T v arrival block = Some ErrPrunedAncestor) \<and>
        (\<not> HasBlock (bc v) (Block_ParentHash block) (NumberU64 block - 1) \<and>
         \<not> HasBlockAndState (bc v) (Block_ParentHash block) (NumberU64 block - 1) \<longrightarrow>
           ValidateBody T v arrival block = Some ErrUnknownAncestor)"
    if "\<not> HasBlockAndState (bc v) (Block_Hash T block) (NumberU64 block) \<and>
      VerifyUncles (engine v) (bc v) block = None \<and>
      CalcUncleHash T (uncles block) = UncleHash (header block) \<and>
      DeriveSha_txs T (transactions block) = TxHash (header block)"
    unfolding returns [OF that] by (simp add: ValidateBody_ancestor_def)
  show ?thesis
  proof (intro conjI)
    show "\<not> HasBlockAndState (bc v) (Block_Hash T block) (NumberU64 block) \<and>
      VerifyUncles (engine v) (bc v) block = None \<and>
      CalcUncleHash T (uncles block) = UncleHash (header block) \<and>
      DeriveSha_txs T (transactions block) = TxHash (header block) \<longrightarrow>
        (HasBlock (bc v) (Block_ParentHash block) (NumberU64 block - 1) \<and>
         \<not> HasBlockAndState (bc v) (Block_ParentHash block) (NumberU64 block - 1) \<longrightarrow>
           ValidateBody T v arrival block = Some ErrPrunedAncestor) \<and>
        (\<not> HasBlock (bc v) (Block_ParentHash block) (NumberU64 block - 1) \<and>
         \<not> HasBlockAndState (bc v) (Block_ParentHash block) (NumberU64 block - 1) \<longrightarrow>
           ValidateBody T v arrival block = Some ErrUnknownAncestor)"
      by (rule impI) (rule passing)
    show "VerifyUncles (engine v) (bc v) block \<noteq> Some ErrPrunedAncestor \<and>
     ValidateBody T v arrival block = Some ErrPrunedAncestor \<longrightarrow>
       HasBlock (bc v) (Block_ParentHash block) (NumberU64 block - 1) \<and>
       \<not> HasBlockAndState (bc v) (Block_ParentHash block) (NumberU64 block - 1)"
      by (rule impI) (rule pruned)
    show "VerifyUncles (engine v) (bc v) block \<noteq> Some ErrUnknownAncestor \<and>
     ValidateBody T v arrival block = Some ErrUnknownAncestor \<longrightarrow>
       \<not> HasBlock (bc v) (Block_ParentHash block) (NumberU64 block - 1) \<and>
       \<not> HasBlockAndState (bc v) (Block_ParentHash block) (NumberU64 block - 1)"
      by (rule impI) (rule unknown)
  qed
qed

theorem ValidateBody_ancestor_errors_witness:
  "ValidateBody example_types (example_validator {} {66} None) [2, 0, 1] example_block
     = Some ErrPrunedAncestor \<and>
   ValidateBody example_types (example_validator {} {} None) [2, 0, 1] example_block
     = Some ErrUnknownAncestor \<and>
   ValidateBody example_types (example_validator {} {66} None) [2, 0, 1] bad_tx_root_block
     = Some ErrPrunedAncestor \<and>
   HasBlock (bc (example_validator {} {66} None)) (Block_ParentHash bad_tx_root_block)
     (NumberU64 bad_tx_root_block - 1) \<and>
   \<not> HasBlockAndState (bc (example_validator {} {66} None))
     (Block_ParentHash bad_tx_root_block) (NumberU64 bad_tx_root_block - 1)"
proof -
  have 1: "ValidateBody example_types (example_validator {} {66} None) [2, 0, 1] example_block
     = Some ErrPrunedAncestor"
    using ValidateBody_ancestor_errors [OF arrival_201, of "example_validator {} {66} None"
        example_types example_block]
    by (simp add: example_defs Block_Hash_def Block_ParentHash_def NumberU64_def)
  have 2: "ValidateBody example_types (example_validator {} {} None) [2, 0, 1] example_block
     = Some ErrUnknownAncestor"
    using ValidateBody_ancestor_errors [OF arrival_201, of "example_validator {} {} None"
        example_types example_block]
    by (simp add: example_defs Block_Hash_def Block_ParentHash_def NumberU64_def)
  have 3: "ValidateBody example_types (example_validator {} {66} None) [2, 0, 1]
      bad_tx_root_block = Some ErrPrunedAncestor"
    by (simp add: example_defs bad_tx_root_block_def vb_defs)
  have engine: "VerifyUncles (engine (example_validator {} {66} None))
      (bc (example_validator {} {66} None)) bad_tx_root_block \<noteq> Some ErrPrunedAncestor"
    by (simp add: example_validator_def)
  from ValidateBody_ancestor_errors [OF arrival_201, of "example_validator {} {66} None"
      example_types bad_tx_root_block] engine 3
  have 4: "HasBlock (bc (example_validator {} {66} None)) (Block_ParentHash bad_tx_root_block)
     (NumberU64 bad_tx_root_block - 1) \<and>
   \<not> HasBlockAndState (bc (example_validator {} {66} None))
     (Block_ParentHash bad_tx_root_block) (NumberU64 bad_tx_root_block - 1)"
    by blast
  from 1 2 3 4 show ?thesis by simp
qed

text \<open>
  Claim C6 as stated fails for a block that also violates an earlier check: with an
  uncle-root mismatch, a block whose parent is unknown and a block whose parent is
  known without state both get the uncle-root error.
\<close>

theorem ValidateBody_ancestor_errors_counterexample:
  "\<not> HasBlock (bc (example_validator {} {} None)) (Block_ParentHash bad_uncle_root_block)
       (NumberU64 bad_uncle_root_block - 1) \<and>
   ValidateBody example_types (example_validator {} {} None) [0, 1, 2] bad_uncle_root_block
     \<noteq> Some ErrUnknownAncestor \<and>
   HasBlock (bc (example_validator {} {66} None)) (Block_ParentHash bad_uncle_root_block)
       (NumberU64 bad_uncle_root_block - 1) \<and>
   \<not> HasBlockAndState (bc (example_validator {} {66} None))
       (Block_ParentHash bad_uncle_root_block) (NumberU64 bad_uncle_root_block - 1) \<and>
   ValidateBody example_types (example_validator {} {66} None) [0, 1, 2] bad_uncle_root_block
     \<noteq> Some ErrPrunedAncestor"
  by (simp add: example_defs bad_uncle_root_block_def vb_defs)

subsection \<open>ValidateState\<close>

text \<open>
  Claim C3. Under every arrival order of the three task results, \<open>ValidateState\<close>
  returns nil if and only if the declared gas used, bloom, receipt root and state root
  all equal the recomputed values; and when exactly one of the four differs, it returns
  exactly the error of that field.
\<close>

theorem ValidateState_succeeds_iff:
  assumes "arrival_order arrival"
  shows "(ValidateState T v arrival block statedb receipts usedGas = None \<longleftrightarrow>
      Block_GasUsed block = usedGas \<and>
      CreateBloom T receipts = Bloom (header block) \<and>
      DeriveSha_receipts T receipts = ReceiptHash (header block) \<and>
      IntermediateRoot statedb (IsEIP158 (config v) (Number (header block)))
        = Root (header block)) \<and>
    (Block_GasUsed block \<noteq> usedGas \<and>
      CreateBloom T receipts = Bloom (header block) \<and>
      DeriveSha_receipts T receipts = ReceiptHash (header block) \<and>
      IntermediateRoot statedb (IsEIP158 (config v) (Number (header block)))
        = Root (header block) \<longrightarrow>
      ValidateState T v arrival block statedb receipts usedGas
        = Some (InvalidGasUsed (Block_GasUsed block) usedGas)) \<and>
    (Block_GasUsed block = usedGas \<and>
      CreateBloom T receipts \<noteq> Bloom (header block) \<and>
      DeriveSha_receipts T receipts = ReceiptHash (header block) \<and>
      IntermediateRoot statedb (IsEIP158 (config v) (Number (header block)))
        = Root (header block) \<longrightarrow>
      ValidateState T v arrival block statedb receipts usedGas
        = Some (InvalidBloom (Bloom (header block)) (CreateBloom T receipts))) \<and>
    (Block_GasUsed block = usedGas \<and>
      CreateBloom T receipts = Bloom (header block) \<and>
      DeriveSha_receipts T receipts \<noteq> ReceiptHash (header block) \<and>
      IntermediateRoot statedb (IsEIP158 (config v) (Number (header block)))
        = Root (header block) \<longrightarrow>
      ValidateState T v arrival block statedb receipts usedGas
        = Some (InvalidReceiptRoot (ReceiptHash (header block))
                  (DeriveSha_receipts T receipts))) \<and>
    (Block_GasUsed block = usedGas \<and>
      CreateBloom T receipts = Bloom (header block) \<and>
      DeriveSha_receipts T receipts = ReceiptHash (header block) \<and>
      IntermediateRoot statedb (IsEIP158 (config v) (Number (header block)))
        \<noteq> Root (header block) \<longrightarrow>
      ValidateState T v arrival block statedb receipts usedGas
        = Some (InvalidMerkleRoot (Root (header block))
                  (IntermediateRoot statedb (IsEIP158 (config v) (Number (header block))))))"
proof (intro conjI impI)
  show "ValidateState T v arrival block statedb receipts usedGas = None \<longleftrightarrow>
      Block_GasUsed block = usedGas \<and>
      CreateBloom T receipts = Bloom (header block) \<and>
      DeriveSha_receipts T receipts = ReceiptHash (header block) \<and>
      IntermediateRoot statedb (IsEIP158 (config v) (Number (header block)))
        = Root (header block)"
    using assms
    by (auto simp: ValidateState_def run_validateFuns_None ValidateState_bloom_def
        ValidateState_receipts_def ValidateState_root_def Let_def)
next
  assume "Block_GasUsed block \<noteq> usedGas \<and>
      CreateBloom T receipts = Bloom (header block) \<and>
      DeriveSha_receipts T receipts = ReceiptHash (header block) \<and>
      IntermediateRoot statedb (IsEIP158 (config v) (Number (header block)))
        = Root (header block)"
  then show "ValidateState T v arrival block statedb receipts usedGas
        = Some (InvalidGasUsed (Block_GasUsed block) usedGas)"
    by (simp add: ValidateState_def)
next
  assume a: "Block_GasUsed block = usedGas \<and>
      CreateBloom T receipts \<noteq> Bloom (header block) \<and>
      DeriveSha_receipts T receipts = ReceiptHash (header block) \<and>
      IntermediateRoot statedb (IsEIP158 (config v) (Number (header block)))
        = Root (header block)"
  have "run_validateFuns arrival
      [ValidateState_bloom T block receipts, ValidateState_receipts T block receipts,
       ValidateState_root T v block statedb]
     = Some (InvalidBloom (Bloom (header block)) (CreateBloom T receipts))"
    by (rule run_validateFuns_only [OF assms])
      (use a in \<open>simp_all add: ValidateState_bloom_def ValidateState_receipts_def
          ValidateState_root_def Let_def\<close>)
  with a show "ValidateState T v arrival block statedb receipts usedGas
        = Some (InvalidBloom (Bloom (header block)) (CreateBloom T receipts))"
    by (simp add: ValidateState_def)
next
  assume a: "Block_GasUsed block = usedGas \<and>
      CreateBloom T receipts = Bloom (header block) \<and>
      DeriveSha_receipts T receipts \<noteq> ReceiptHash (header block) \<and>
      IntermediateRoot statedb (IsEIP158 (config v) (Number (header block)))
        = Root (header block)"
  have "run_validateFuns arrival
      [ValidateState_bloom T block receipts, ValidateState_receipts T block receipts,
       ValidateState_root T v block statedb]
     = Some (InvalidReceiptRoot (ReceiptHash (header block)) (DeriveSha_receipts T receipts))"
    by (rule run_validateFuns_only [OF assms])
      (use a in \<open>simp_all add: ValidateState_bloom_def ValidateState_receipts_def
          ValidateState_root_def Let_def\<close>)
  with a show "ValidateState T v arrival block statedb receipts usedGas
        = Some (InvalidReceiptRoot (ReceiptHash (header block))
                  (DeriveSha_receipts T receipts))"
    by (simp add: ValidateState_def)
next
  assume a: "Block_GasUsed block = usedGas \<and>
      CreateBloom T receipts = Bloom (header block) \<and>
      DeriveSha_receipts T receipts = ReceiptHash (header block) \<and>
      IntermediateRoot statedb (IsEIP158 (config v) (Number (header block)))
        \<noteq> Root (header block)"
  have "run_validateFuns arrival
      [ValidateState_bloom T block receipts, ValidateState_receipts T block receipts,
       ValidateState_root T v block statedb]
     = Some (InvalidMerkleRoot (Root (header block))
                  (IntermediateRoot statedb (IsEIP158 (config v) (Number (header block)))))"
    by (rule run_validateFuns_only [OF assms])
      (use a in \<open>auto simp add: ValidateState_bloom_def ValidateState_receipts_def
          ValidateState_root_def Let_def\<close>)
  with a show "ValidateState T v arrival block statedb receipts usedGas
        = Some (InvalidMerkleRoot (Root (header block))
                  (IntermediateRoot statedb (IsEIP158 (config v) (Number (header block)))))"
    by (simp add: ValidateState_def)
qed

theorem ValidateState_succeeds_iff_witness:
  "arrival_order [1, 2, 0] \<and>
   ValidateState example_types (example_validator {} {} None) [1, 2, 0] example_block
     (example_statedb 55) [] 21000 = None \<and>
   ValidateState example_types (example_validator {} {} None) [1, 2, 0] example_block
     (example_statedb 56) [] 21000 = Some (InvalidMerkleRoot 55 56)"
proof -
  note ok = ValidateState_succeeds_iff [OF arrival_120, of example_types
      "example_validator {} {} None" example_block "example_statedb 55" "[]" 21000]
  note bad = ValidateState_succeeds_iff [OF arrival_120, of example_types
      "example_validator {} {} None" example_block "example_statedb 56" "[]" 21000]
  have 1: "ValidateState example_types (example_validator {} {} None) [1, 2, 0] example_block
     (example_statedb 55) [] 21000 = None"
    using ok by (simp add: example_defs example_statedb_def Block_GasUsed_def)
  have 2: "ValidateState example_types (example_validator {} {} None) [1, 2, 0] example_block
     (example_statedb 56) [] 21000 = Some (InvalidMerkleRoot 55 56)"
    using bad by (simp add: example_defs example_statedb_def Block_GasUsed_def)
  from arrival_120 1 2 show ?thesis by simp
qed

section \<open>Properties of the remote-work API\<close>

lemmas api_examples = idle_def shut_down_def loop_receiving_def remote_on_def remote_off_def
  zero_work_def

subsection \<open>What a returned value tells about the run\<close>

lemma GetWork_await_Some:
  "GetWork_await cs = Some (w, e) \<Longrightarrow>
     e = None \<and> (\<exists>c \<in> set cs. workCh c = Some w) \<or>
     w = zero_work \<and> (\<exists>c \<in> set cs. errc c = Some e)"
  by (induction cs) (auto split: option.splits if_splits)

lemma GetWork_send_Some:
  "GetWork_send cs = (q, Some (w, e)) \<Longrightarrow>
     q = None \<and> w = zero_work \<and> e = Some errEthashStopped \<and> (\<exists>c \<in> set cs. exitCh_closed c) \<or>
     q = Some SealWork \<and> e = None \<and> (\<exists>c \<in> set cs. workCh c = Some w) \<or>
     q = Some SealWork \<and> w = zero_work \<and> (\<exists>c \<in> set cs. errc c = Some e)"
proof (induction cs)
  case Nil
  then show ?case by simp
next
  case (Cons c cs)
  show ?case
  proof (cases "fetchWorkCh_recv c \<and> \<not> (exitCh_closed c \<and> pick_second c)")
    case True
    with Cons.prems have "q = Some SealWork" and "GetWork_await cs = Some (w, e)"
      by auto
    with GetWork_await_Some [of cs w e] show ?thesis by auto
  next
    case False
    show ?thesis
    proof (cases "exitCh_closed c")
      case True
      with False Cons.prems show ?thesis by auto
    next
      case no_exit: False
      with False Cons.prems have "GetWork_send cs = (q, Some (w, e))" by auto
      from Cons.IH [OF this] show ?thesis by auto
    qed
  qed
qed










subsection \<open>GetWork\<close>

text \<open>
  Claim C8, as amended. When \<open>GetWork\<close> returns, it returns one of: the unsupported
  error, when the remote sealer is nil, without handing any request to the loop; the
  stopped error, when the shutdown signal won against sending the request, again with
  no request handed over; a work package of five strings that the loop replied; or,
  with the zero package, whatever error the loop replied on the error conduit, passed
  on unchanged.
\<close>

theorem GetWork_outcomes:
  "(remote (inihash api) = None \<longrightarrow>
      GetWork api cs = (None, Some (zero_work, Some ErrNotSupported))) \<and>
   (\<forall>q w e. GetWork api cs = (q, Some (w, e)) \<longrightarrow>
      remote (inihash api) = None \<and> q = None \<and> w = zero_work \<and> e = Some ErrNotSupported \<or>
      remote (inihash api) \<noteq> None \<and> q = None \<and> w = zero_work \<and>
        e = Some errEthashStopped \<and> (\<exists>c \<in> set cs. exitCh_closed c) \<or>
      remote (inihash api) \<noteq> None \<and> q = Some SealWork \<and> e = None \<and>
        (\<exists>c \<in> set cs. workCh c = Some w) \<or>
      remote (inihash api) \<noteq> None \<and> q = Some SealWork \<and> w = zero_work \<and>
        (\<exists>c \<in> set cs. errc c = Some e))"
proof (intro conjI allI impI)
  assume "remote (inihash api) = None"
  then show "GetWork api cs = (None, Some (zero_work, Some ErrNotSupported))"
    by (simp add: GetWork_def)
next
  fix q w e
  assume ret: "GetWork api cs = (q, Some (w, e))"
  show "remote (inihash api) = None \<and> q = None \<and> w = zero_work \<and> e = Some ErrNotSupported \<or>
      remote (inihash api) \<noteq> None \<and> q = None \<and> w = zero_work \<and>
        e = Some errEthashStopped \<and> (\<exists>c \<in> set cs. exitCh_closed c) \<or>
      remote (inihash api) \<noteq> None \<and> q = Some SealWork \<and> e = None \<and>
        (\<exists>c \<in> set cs. workCh c = Some w) \<or>
      remote (inihash api) \<noteq> None \<and> q = Some SealWork \<and> w = zero_work \<and>
        (\<exists>c \<in> set cs. errc c = Some e)"
  proof (cases "remote (inihash api) = None")
    case True
    with ret show ?thesis by (auto simp: GetWork_def)
  next
    case False
    with ret have "GetWork_send cs = (q, Some (w, e))" by (simp add: GetWork_def)
    from GetWork_send_Some [OF this] False show ?thesis by auto
  qed
qed

theorem GetWork_outcomes_witness:
  "GetWork remote_off [loop_receiving, loop_replies_work]
     = (None, Some (zero_work, Some ErrNotSupported)) \<and>
   GetWork remote_on [shut_down] = (None, Some (zero_work, Some errEthashStopped)) \<and>
   GetWork remote_on [loop_receiving, loop_replies_work]
     = (Some SealWork, Some ((''0x1'', ''0x2'', ''0x3'', ''0x4'', ''algo''), None))"
proof -
  have 1: "GetWork remote_off [loop_receiving, loop_replies_work]
     = (None, Some (zero_work, Some ErrNotSupported))"
    using GetWork_outcomes [of remote_off "[loop_receiving, loop_replies_work]"]
    by (simp add: remote_off_def)
  have 2: "GetWork remote_on [shut_down] = (None, Some (zero_work, Some errEthashStopped))"
    by (simp add: GetWork_def api_examples loop_replies_work_def)
  have 3: "GetWork remote_on [loop_receiving, loop_replies_work]
     = (Some SealWork, Some ((''0x1'', ''0x2'', ''0x3'', ''0x4'', ''algo''), None))"
    by (simp add: GetWork_def api_examples loop_replies_work_def)
  from 1 2 3 show ?thesis by simp
qed

text \<open>
  Claim C8 as stated fails: when the loop answers the request with an error of its own,
  \<open>GetWork\<close> returns that error, which is neither the unsupported error nor the
  stopped error.
\<close>

theorem GetWork_outcomes_counterexample:
  "GetWork remote_on [loop_receiving, loop_replies_error]
     = (Some SealWork, Some (zero_work, Some (LoopError ''no mining work available yet''))) \<and>
   LoopError ''no mining work available yet'' \<noteq> ErrNotSupported \<and>
   LoopError ''no mining work available yet'' \<noteq> errEthashStopped"
  by (simp add: GetWork_def api_examples loop_replies_error_def)

subsection \<open>Hand-offs and the shutdown signal\<close>




end
